theory Spec2Isabelle
  imports Complex_Main "HOL-Library.Product_Lexorder"
begin

section \<open>Array elements\<close>

text \<open>
  The arrays of the program hold IEEE double-precision numbers. The model keeps the
  special values the code tests for (\<open>np.isfinite\<close>, \<open>np.nanmedian\<close>) and what
  division by zero produces on numpy arrays (an infinity or NaN with a warning, never an
  exception). Finite arithmetic is exact: rounding, overflow and underflow are left out,
  and the two zeros of IEEE are one value, so a finite non-zero number divided by zero
  always gives an infinity of the sign of the numerator.
\<close>

datatype npfloat = Fin real | PInf | NInf | NaN

fun isnan :: "npfloat \<Rightarrow> bool" where
  "isnan NaN = True"
| "isnan _ = False"

fun isfinite :: "npfloat \<Rightarrow> bool" where
  "isfinite (Fin _) = True"
| "isfinite _ = False"

fun fneg :: "npfloat \<Rightarrow> npfloat" where
  "fneg (Fin a) = Fin (- a)"
| "fneg PInf = NInf"
| "fneg NInf = PInf"
| "fneg NaN = NaN"

fun fadd :: "npfloat \<Rightarrow> npfloat \<Rightarrow> npfloat" where
  "fadd NaN _ = NaN"
| "fadd _ NaN = NaN"
| "fadd (Fin a) (Fin b) = Fin (a + b)"
| "fadd PInf NInf = NaN"
| "fadd NInf PInf = NaN"
| "fadd PInf _ = PInf"
| "fadd _ PInf = PInf"
| "fadd NInf _ = NInf"
| "fadd _ NInf = NInf"

definition fsub :: "npfloat \<Rightarrow> npfloat \<Rightarrow> npfloat" where
  "fsub a b = fadd a (fneg b)"

text \<open>An infinity of the sign of \<open>a\<close>, or of the opposite sign; \<open>a\<close> is not zero.\<close>

definition inf_of_sign :: "real \<Rightarrow> npfloat" where
  "inf_of_sign a = (if 0 < a then PInf else NInf)"

fun fmul :: "npfloat \<Rightarrow> npfloat \<Rightarrow> npfloat" where
  "fmul NaN _ = NaN"
| "fmul _ NaN = NaN"
| "fmul (Fin a) (Fin b) = Fin (a * b)"
| "fmul (Fin a) PInf = (if a = 0 then NaN else inf_of_sign a)"
| "fmul (Fin a) NInf = (if a = 0 then NaN else inf_of_sign (- a))"
| "fmul PInf (Fin b) = (if b = 0 then NaN else inf_of_sign b)"
| "fmul NInf (Fin b) = (if b = 0 then NaN else inf_of_sign (- b))"
| "fmul PInf PInf = PInf"
| "fmul PInf NInf = NInf"
| "fmul NInf PInf = NInf"
| "fmul NInf NInf = PInf"

fun fdiv :: "npfloat \<Rightarrow> npfloat \<Rightarrow> npfloat" where
  "fdiv NaN _ = NaN"
| "fdiv _ NaN = NaN"
| "fdiv (Fin a) (Fin b) =
     (if b = 0 then (if a = 0 then NaN else inf_of_sign a) else Fin (a / b))"
| "fdiv (Fin a) PInf = Fin 0"
| "fdiv (Fin a) NInf = Fin 0"
| "fdiv PInf (Fin b) = (if b < 0 then NInf else PInf)"
| "fdiv NInf (Fin b) = (if b < 0 then PInf else NInf)"
| "fdiv PInf PInf = NaN"
| "fdiv PInf NInf = NaN"
| "fdiv NInf PInf = NaN"
| "fdiv NInf NInf = NaN"

text \<open>\<open>x ** 2\<close> on a float array is the product of each element with itself.\<close>

definition fsq :: "npfloat \<Rightarrow> npfloat" where
  "fsq x = fmul x x"

fun fsqrt :: "npfloat \<Rightarrow> npfloat" where
  "fsqrt (Fin a) = (if a < 0 then NaN else Fin (sqrt a))"
| "fsqrt PInf = PInf"
| "fsqrt NInf = NaN"
| "fsqrt NaN = NaN"

text \<open>Comparisons: every comparison with NaN is false, also \<open>NaN == NaN\<close>.\<close>

fun flt :: "npfloat \<Rightarrow> npfloat \<Rightarrow> bool" where
  "flt NaN _ = False"
| "flt _ NaN = False"
| "flt (Fin a) (Fin b) = (a < b)"
| "flt (Fin a) PInf = True"
| "flt NInf (Fin b) = True"
| "flt NInf PInf = True"
| "flt _ _ = False"

definition fgt :: "npfloat \<Rightarrow> npfloat \<Rightarrow> bool" where
  "fgt a b = flt b a"

definition feq :: "npfloat \<Rightarrow> npfloat \<Rightarrow> bool" where
  "feq a b = (\<not> isnan a \<and> a = b)"

definition fge :: "npfloat \<Rightarrow> npfloat \<Rightarrow> bool" where
  "fge a b = (flt b a \<or> feq a b)"


section \<open>numpy arrays\<close>

text \<open>
  A one-dimensional array is a list, a two-dimensional array the list of its rows. Every
  failure of an indexing or of an element-wise operation is a value of \<open>np_error\<close>.
\<close>

type_synonym vector = "npfloat list"
type_synonym matrix = "npfloat list list"

datatype np_error = IndexError | ValueError | TypeError | RankDeficientError

text \<open>\<open>a[mask]\<close> with a boolean mask over the first axis: the rows whose flag is set.\<close>

definition masked :: "bool list \<Rightarrow> 'a list \<Rightarrow> 'a list" where
  "masked flags xs = map snd (filter fst (zip flags xs))"

definition column :: "nat \<Rightarrow> matrix \<Rightarrow> vector" where
  "column k M = map (\<lambda>row. row ! k) M"

text \<open>
  The length of the second axis of a two-dimensional array, read off its first row (an
  array without rows is taken to have no column).
\<close>

definition n_columns :: "matrix \<Rightarrow> nat" where
  "n_columns M = (case M of [] \<Rightarrow> 0 | row # _ \<Rightarrow> length row)"

text \<open>
  \<open>a[:, ind]\<close> on an array whose second axis has length \<open>n\<close>, where \<open>ind\<close> selects a list
  of columns (a slice or an index array, given by the positions it selects): IndexError
  when a position is outside the axis, whether or not the array has a row. (The rows of
  an array all have length \<open>n\<close>; the test against each row only keeps the projection
  defined on lists that are not rectangular.)
\<close>

definition take_columns :: "nat \<Rightarrow> matrix \<Rightarrow> nat list \<Rightarrow> np_error + matrix" where
  "take_columns n M js =
     (if list_all (\<lambda>j. j < n) js \<and> list_all (\<lambda>row. list_all (\<lambda>j. j < length row) js) M
      then Inr (map (\<lambda>row. map (\<lambda>j. row ! j) js) M)
      else Inl IndexError)"

definition same_shape :: "matrix \<Rightarrow> matrix \<Rightarrow> bool" where
  "same_shape A B = (map length A = map length B)"

text \<open>
  An element-wise operation on two arrays of one shape. (numpy also accepts operands
  with axes of length one and stretches them; the arrays of the program have the shape of
  the library, and that stretching is not modelled: other shapes are a ValueError here.)
\<close>

definition elementwise :: "(npfloat \<Rightarrow> npfloat \<Rightarrow> npfloat) \<Rightarrow> matrix \<Rightarrow> matrix \<Rightarrow> np_error + matrix" where
  "elementwise f A B =
     (if same_shape A B then Inr (map2 (map2 f) A B) else Inl ValueError)"

text \<open>\<open>a[bad] = v\<close> with a boolean array \<open>bad\<close> of the shape of \<open>a\<close>.\<close>

definition put_where :: "bool list list \<Rightarrow> npfloat \<Rightarrow> matrix \<Rightarrow> matrix" where
  "put_where bad v A = map2 (map2 (\<lambda>b x. if b then v else x)) bad A"

text \<open>
  \<open>np.nanmedian\<close>: the NaN entries are dropped, the rest is sorted, and the result is the
  mean of the middle element (odd length) or of the two middle elements (even length);
  NaN when nothing is left.
\<close>

definition rank :: "npfloat \<Rightarrow> int \<times> real" where
  "rank x = (case x of NInf \<Rightarrow> (- 1, 0) | Fin a \<Rightarrow> (0, a) | PInf \<Rightarrow> (1, 0) | NaN \<Rightarrow> (2, 0))"

definition median_sorted :: "vector \<Rightarrow> npfloat" where
  "median_sorted ys =
     (let n = length ys in
      if n = 0 then NaN
      else if odd n then ys ! (n div 2)
      else fdiv (fadd (ys ! (n div 2 - 1)) (ys ! (n div 2))) (Fin 2))"

definition nanmedian :: "vector \<Rightarrow> npfloat" where
  "nanmedian xs = median_sorted (sort_key rank (filter (\<lambda>x. \<not> isnan x) xs))"

text \<open>
  \<open>a.std()\<close>: the square root of the mean of the squared deviations from the mean
  (no degrees-of-freedom correction); the mean of no element is 0/0.
\<close>

definition fsum :: "vector \<Rightarrow> npfloat" where
  "fsum xs = foldl fadd (Fin 0) xs"

definition mean :: "vector \<Rightarrow> npfloat" where
  "mean xs = fdiv (fsum xs) (Fin (real (length xs)))"

definition std :: "vector \<Rightarrow> npfloat" where
  "std xs = (let mu = mean xs in fsqrt (mean (map (\<lambda>x. fsq (fsub x mu)) xs)))"

section \<open>demo/loo_combined.py: CombinedInterpolator\<close>

text \<open>
  The attributes of the interpolator that the methods below read or write. A row of the
  label table carries the categorical label \<open>miles_id\<close> (its numeric labels are fields of
  the extensible part of the record).
\<close>

record label =
  miles_id :: string

record h5file =
  f_wavelengths :: vector
  f_spectra :: matrix
  f_parameters :: "label list"
  f_uncertainties :: matrix

record psimodel =
  wavelengths :: vector
  library_spectra :: matrix
  library_labels :: "label list"
  library_snr :: matrix
  library_mask :: "bool list"
  c3k_weight :: npfloat
  has_errors :: bool
  bad_flux_value :: npfloat
  unweighted :: bool
  logify_flux :: bool
  features :: "string list list"
  reference_index :: "nat option"
  reference_spectrum :: vector

text \<open>
  Modelled from the spec: the base class \<open>SimplePSIModel\<close> (psi/model.py) is not part of
  the sources. Its inclusion mask is a boolean vector over the library rows, reset to
  all-true, and the training view is the projection of the library onto the rows whose
  mask is true.
\<close>

definition reset_mask :: "psimodel \<Rightarrow> psimodel" where
  "reset_mask self = self\<lparr>library_mask := replicate (length (library_spectra self)) True\<rparr>"

definition training_spectra :: "psimodel \<Rightarrow> matrix" where
  "training_spectra self = masked (library_mask self) (library_spectra self)"

definition training_snr :: "psimodel \<Rightarrow> matrix" where
  "training_snr self = masked (library_mask self) (library_snr self)"

definition training_labels :: "psimodel \<Rightarrow> label list" where
  "training_labels self = masked (library_mask self) (library_labels self)"

subsection \<open>load_training_data\<close>

text \<open>
  The keyword arguments \<open>c3k_weight=1e-1\<close> and \<open>snr_threshold=1e-10\<close> are options: None
  is the argument left out. The datasets of the file are an argument; reading the file is
  not modelled.
\<close>

definition load_training_data ::
  "psimodel \<Rightarrow> h5file \<Rightarrow> npfloat option \<Rightarrow> npfloat option \<Rightarrow> np_error + psimodel" where
  "load_training_data self f c3k_weight_arg snr_threshold_arg =
     (let c3k_w = (case c3k_weight_arg of None \<Rightarrow> Fin (1 / 10) | Some c \<Rightarrow> c);
          snr_threshold = (case snr_threshold_arg of None \<Rightarrow> Fin (1 / 10 ^ 10) | Some t \<Rightarrow> t)
      in case elementwise fdiv (f_spectra f) (f_uncertainties f) of
           Inl e \<Rightarrow> Inl e
         | Inr snr \<Rightarrow>
             (let bad = map (map (\<lambda>s. flt s snr_threshold \<or> \<not> isfinite s)) snr;
                  bfv = nanmedian (concat (f_spectra f))
              in Inr (reset_mask (self\<lparr>
                   wavelengths := f_wavelengths f,
                   library_spectra := put_where bad bfv (f_spectra f),
                   library_labels := f_parameters f,
                   library_snr := put_where bad (Fin 0) snr,
                   c3k_weight := c3k_w,
                   has_errors := True,
                   bad_flux_value := bfv\<rparr>))))"

subsection \<open>get_weights\<close>

text \<open>
  \<open>ind_wave\<close> selects wavelength channels: the body indexes the weights with two
  subscripts (\<open>relative_weights[~c3k, :]\<close>), so the selection \<open>training_snr[:, ind_wave]\<close>
  is two-dimensional, one column per selected channel. The training view has the second
  axis of the library. The result is \<open>None\<close> (unweighted) or the array of weights.
\<close>

definition get_weights :: "psimodel \<Rightarrow> nat list \<Rightarrow> matrix \<Rightarrow> np_error + matrix option" where
  "get_weights self ind_wave spec =
     (if \<not> has_errors self \<or> unweighted self then Inr None
      else case take_columns (n_columns (library_snr self)) (training_snr self) ind_wave of
        Inl e \<Rightarrow> Inl e
      | Inr snr \<Rightarrow>
          (case (if logify_flux self then Inr (map (map fsq) snr)
                 else (case elementwise fdiv snr spec of
                         Inl e \<Rightarrow> Inl e
                       | Inr q \<Rightarrow> Inr (map (map fsq) q))) of
             Inl e \<Rightarrow> Inl e
           | Inr relative_weights \<Rightarrow>
               (let c3k = map (\<lambda>l. miles_id l = ''c3k'') (training_labels self) in
                if length c3k \<noteq> length relative_weights then Inl IndexError
                else
                  (let wmiles = map (\<lambda>k. nanmedian (column k (masked (map Not c3k) relative_weights)))
                                    [0..<length ind_wave];
                       wmiles1 = map (\<lambda>w. if feq w (Fin 0) then Fin 1 else w) wmiles;
                       fill = map (\<lambda>w. fmul w (c3k_weight self)) wmiles1
                   in Inr (Some (map2 (\<lambda>flag row. if flag then fill else row)
                                      c3k relative_weights))))))"

subsection \<open>build_training_info\<close>

text \<open>
  \<open>training_spectra.std(axis=0)\<close>: one standard deviation per column of the library, each
  over the training rows.
\<close>

definition build_training_info :: "psimodel \<Rightarrow> psimodel" where
  "build_training_info self =
     self\<lparr>reference_index := None,
          reference_spectrum := map (\<lambda>k. std (column k (training_spectra self)))
                                    [0..<n_columns (library_spectra self)]\<rparr>"


subsection \<open>train\<close>

text \<open>
  Modelled from the spec: \<open>train()\<close> is a method of the base class \<open>SimplePSIModel\<close>
  (psi/model.py), which is not part of the sources; only its callers are. The spec's
  Trainer signals \<open>RankDeficientError\<close> when the design matrix has more columns (the bias
  and one per feature term) than there are masked training rows, and otherwise precomputes
  the training info and returns one coefficient vector per wavelength. The least-squares
  solve is a parameter of the model.
\<close>

definition n_train :: "psimodel \<Rightarrow> nat" where
  "n_train self = length (training_spectra self)"

definition train :: "(psimodel \<Rightarrow> matrix) \<Rightarrow> psimodel \<Rightarrow> np_error + psimodel \<times> matrix" where
  "train solve self =
     (if n_train self < length (features self) + 1 then Inl RankDeficientError
      else (let self1 = build_training_info self in Inr (self1, solve self1)))"

section \<open>psi/utils.py\<close>

subsection \<open>within\<close>

text \<open>
  \<^verbatim>\<open>def within(bound, value): return (value < bound[1]) & (value > bound[0])\<close>
  (named \<open>within_bound\<close> here: \<open>within\<close> is a word of the syntax of filters.)
\<close>

definition within_bound :: "npfloat \<times> npfloat \<Rightarrow> npfloat \<Rightarrow> bool" where
  "within_bound bound val = (flt val (snd bound) \<and> fgt val (fst bound))"

subsection \<open>Structured arrays\<close>

text \<open>
  A one-dimensional structured array whose fields are floats: the field names of its
  dtype, in declaration order, and its records, each a tuple of one value per field. The
  names of a dtype are distinct.
\<close>

record struct =
  dtype_names :: "string list"
  records :: "vector list"

definition wf_struct :: "struct \<Rightarrow> bool" where
  "wf_struct s = (distinct (dtype_names s)
     \<and> list_all (\<lambda>r. length r = length (dtype_names s)) (records s))"

fun index_of :: "'a list \<Rightarrow> 'a \<Rightarrow> nat option" where
  "index_of [] x = None"
| "index_of (y # ys) x = (if x = y then Some 0 else map_option Suc (index_of ys x))"

text \<open>\<open>struct[n]\<close>: the array of the values of field \<open>n\<close>; ValueError if there is no such field.\<close>

definition get_field :: "struct \<Rightarrow> string \<Rightarrow> np_error + vector" where
  "get_field s n =
     (case index_of (dtype_names s) n of
        None \<Rightarrow> Inl ValueError
      | Some k \<Rightarrow> Inr (column k (records s)))"

text \<open>\<open>[struct[n] for n in ns]\<close>, paired with the names.\<close>

fun collect_fields :: "struct \<Rightarrow> string list \<Rightarrow> np_error + (string \<times> vector) list" where
  "collect_fields s [] = Inr []"
| "collect_fields s (n # ns) =
     (case get_field s n of
        Inl e \<Rightarrow> Inl e
      | Inr col \<Rightarrow>
          (case collect_fields s ns of
             Inl e \<Rightarrow> Inl e
           | Inr rest \<Rightarrow> Inr ((n, col) # rest)))"

text \<open>
  The value of a label in the dictionary given to \<open>make_struct\<close>: a float, or a sequence
  of floats (on which \<open>len\<close> succeeds).
\<close>

datatype label_value = Scalar npfloat | Sequence vector

text \<open>
  \<open>struct[n] = v\<close>: a scalar is written to every record; a sequence must have the length
  of the array, or length one, and is a ValueError otherwise.
\<close>

definition set_field :: "struct \<Rightarrow> string \<Rightarrow> label_value \<Rightarrow> np_error + struct" where
  "set_field s n v =
     (case index_of (dtype_names s) n of
        None \<Rightarrow> Inl ValueError
      | Some k \<Rightarrow>
          (case v of
             Scalar x \<Rightarrow> Inr (s\<lparr>records := map (\<lambda>r. r[k := x]) (records s)\<rparr>)
           | Sequence xs \<Rightarrow>
               if length xs = length (records s)
               then Inr (s\<lparr>records := map2 (\<lambda>r x. r[k := x]) (records s) xs\<rparr>)
               else if length xs = 1
               then Inr (s\<lparr>records := map (\<lambda>r. r[k := hd xs]) (records s)\<rparr>)
               else Inl ValueError))"

text \<open>
  The two-dimensional results of \<open>np.array\<close> carry their shape, since an array without
  rows still has a number of columns: \<open>np.array([])\<close> is the one-dimensional empty array,
  and \<open>np.array\<close> of a non-empty list of equally long sequences has one row per sequence.
\<close>

datatype ndarray = Array1 vector | Array2 nat nat matrix

definition np_array :: "vector list \<Rightarrow> ndarray" where
  "np_array rows = (case rows of [] \<Rightarrow> Array1 [] | r # _ \<Rightarrow> Array2 (length rows) (length r) rows)"

fun transpose_nd :: "ndarray \<Rightarrow> ndarray" where
  "transpose_nd (Array1 v) = Array1 v"
| "transpose_nd (Array2 r c M) = Array2 c r (map (\<lambda>k. column k M) [0..<c])"

subsection \<open>flatten_struct\<close>

text \<open>
  \<^verbatim>\<open>if use_labels is None: return np.array(struct.tolist())\<close>
  \<^verbatim>\<open>else: return np.array([struct[n] for n in use_labels])\<close>
\<close>

definition flatten_struct :: "struct \<Rightarrow> string list option \<Rightarrow> np_error + ndarray" where
  "flatten_struct s use_labels =
     (case use_labels of
        None \<Rightarrow> Inr (np_array (records s))
      | Some ns \<Rightarrow>
          (case collect_fields s ns of
             Inl e \<Rightarrow> Inl e
           | Inr cols \<Rightarrow> Inr (np_array (map snd cols))))"

subsection \<open>dict_struct\<close>

text \<open>
  \<^verbatim>\<open>return dict([(n, struct[n]) for n in struct.dtype.names])\<close>; in \<open>dict\<close> of a list of
  pairs a later pair wins.
\<close>

definition dict_struct :: "struct \<Rightarrow> np_error + (string \<rightharpoonup> vector)" where
  "dict_struct s =
     (case collect_fields s (dtype_names s) of
        Inl e \<Rightarrow> Inl e
      | Inr items \<Rightarrow> Inr (map_of (rev items)))"

subsection \<open>make_struct\<close>

text \<open>
  The keyword dictionary is the list of its items in the order of \<open>keys()\<close>; each key
  occurs once. \<open>np.dtype\<close> gives a field whose name is the empty string a default name, so
  that the later \<open>labels[n]\<close> with the empty name finds no field. The length \<open>nl\<close> is that of
  the value of the first key (Python 2, where \<open>keys()\<close> is a list), and 1 when \<open>len\<close> raises
  or there is no key.
\<close>

fun assign_all :: "struct \<Rightarrow> (string \<times> label_value) list \<Rightarrow> np_error + struct" where
  "assign_all s [] = Inr s"
| "assign_all s ((n, v) # rest) =
     (case set_field s n v of
        Inl e \<Rightarrow> Inl e
      | Inr s1 \<Rightarrow> assign_all s1 rest)"

definition make_struct :: "(string \<times> label_value) list \<Rightarrow> np_error + struct" where
  "make_struct label_dict =
     (let keys = map fst label_dict in
      if [] \<in> set keys then Inl ValueError
      else
        (let nl = (case label_dict of
                     [] \<Rightarrow> 1
                   | (n, v) # rest \<Rightarrow> (case v of Scalar x \<Rightarrow> 1 | Sequence xs \<Rightarrow> length xs));
             labels = \<lparr>dtype_names = keys,
                       records = replicate nl (replicate (length keys) (Fin 0))\<rparr>
         in assign_all labels label_dict))"

section \<open>Auxiliary definitions\<close>

text \<open>
  Names for two parts of the body of \<open>get_weights\<close>, used to state lemmas: the flags of
  the c3k rows, and the final step that overwrites the flagged rows.
\<close>

definition c3k_flags :: "psimodel \<Rightarrow> bool list" where
  "c3k_flags self = map (\<lambda>l. miles_id l = ''c3k'') (training_labels self)"

definition rescale :: "psimodel \<Rightarrow> nat \<Rightarrow> matrix \<Rightarrow> matrix" where
  "rescale self n rw =
     (let c3k = c3k_flags self;
          wmiles = map (\<lambda>k. nanmedian (column k (masked (map Not c3k) rw))) [0..<n];
          wmiles1 = map (\<lambda>w. if feq w (Fin 0) then Fin 1 else w) wmiles;
          fill = map (\<lambda>w. fmul w (c3k_weight self)) wmiles1
      in map2 (\<lambda>flag row. if flag then fill else row) c3k rw)"


text \<open>
  The inputs on which \<open>get_weights\<close> raises nothing when weighting is enabled: every
  selected position lies on the wavelength axis of the library, every training row has the
  length of that axis, there is one label per training row and, when the model fits linear
  flux, \<open>spec\<close> has one row per training row and one entry per selected wavelength.
  \<open>base_weights\<close> is \<open>relative_weights\<close> before the c3k rows are overwritten, and
  \<open>relative_weight\<close> its entry for training row \<open>i\<close> and the \<open>k\<close>-th selected wavelength, as
  the two branches of the source compute it.
\<close>

definition weights_input_ok :: "psimodel \<Rightarrow> nat list \<Rightarrow> matrix \<Rightarrow> bool" where
  "weights_input_ok self ind_wave spec =
     (list_all (\<lambda>j. j < n_columns (library_snr self)) ind_wave
      \<and> list_all (\<lambda>row. length row = n_columns (library_snr self)) (training_snr self)
      \<and> length (training_labels self) = length (training_snr self)
      \<and> (logify_flux self \<or> map length spec = map (\<lambda>row. length ind_wave) (training_snr self)))"

definition relative_weight :: "psimodel \<Rightarrow> nat list \<Rightarrow> matrix \<Rightarrow> nat \<Rightarrow> nat \<Rightarrow> npfloat" where
  "relative_weight self ind_wave spec i k =
     (if logify_flux self then fsq (training_snr self ! i ! (ind_wave ! k))
      else fsq (fdiv (training_snr self ! i ! (ind_wave ! k)) (spec ! i ! k)))"

definition base_weights :: "psimodel \<Rightarrow> nat list \<Rightarrow> matrix \<Rightarrow> matrix" where
  "base_weights self ind_wave spec =
     (let snr = map (\<lambda>row. map (\<lambda>j. row ! j) ind_wave) (training_snr self)
      in if logify_flux self then map (map fsq) snr
         else map (map fsq) (map2 (map2 fdiv) snr spec))"

text \<open>
  A small library for concrete evaluation: six stars at two wavelengths, the fifth masked
  out, the sixth a c3k model; the weights of its five training rows when it fits log flux;
  and a flux input with the weights it gives when the same library fits linear flux.
\<close>

definition example_spec :: matrix where
  "example_spec = [[Fin 1, Fin 2], [Fin 1, Fin 2], [Fin 1, Fin 1], [Fin 2, Fin 2], [Fin 5, Fin 5]]"

definition example_linear_weights :: matrix where
  "example_linear_weights = [[Fin 1, Fin 0], [Fin 4, Fin 0], [Fin 9, Fin 25], [Fin 4, Fin 0],
                             [Fin (2 / 5), Fin (1 / 10)]]"

definition example_model :: psimodel where
  "example_model = \<lparr>wavelengths = [Fin 4000, Fin 5000],
     library_spectra = [[Fin 1, Fin 2], [Fin 2, Fin 2], [Fin 3, Fin 1], [Fin 4, Fin 2], [Fin 9, Fin 9], [Fin 5, Fin 5]],
     library_labels = [\<lparr>miles_id = ''s1''\<rparr>, \<lparr>miles_id = ''s2''\<rparr>, \<lparr>miles_id = ''s3''\<rparr>,
                       \<lparr>miles_id = ''s4''\<rparr>, \<lparr>miles_id = ''mdwarf''\<rparr>, \<lparr>miles_id = ''c3k''\<rparr>],
     library_snr = [[Fin 1, Fin 0], [Fin 2, Fin 0], [Fin 3, Fin 5], [Fin 4, Fin 0], [Fin 8, Fin 8], [Fin 7, Fin 7]],
     library_mask = [True, True, True, True, False, True],
     c3k_weight = Fin (1 / 10), has_errors = True, bad_flux_value = Fin 2,
     unweighted = False, logify_flux = True, features = [[''logt''], [''feh'']],
     reference_index = None, reference_spectrum = []\<rparr>"

definition example_weights :: matrix where
  "example_weights = [[Fin 1, Fin 0], [Fin 4, Fin 0], [Fin 9, Fin 25], [Fin 16, Fin 0],
                      [Fin (13 / 20), Fin (1 / 10)]]"


text \<open>
  A library of one star and one wavelength whose flux is zero, the state to which the
  default arguments load it into a model that fits linear flux, and that model before
  loading.
\<close>

definition zero_flux_file :: h5file where
  "zero_flux_file = \<lparr>f_wavelengths = [Fin 5000], f_spectra = [[Fin 0]],
     f_parameters = [\<lparr>miles_id = ''s1''\<rparr>], f_uncertainties = [[Fin 1]]\<rparr>"

definition linear_model :: psimodel where
  "linear_model = \<lparr>wavelengths = [], library_spectra = [], library_labels = [],
     library_snr = [], library_mask = [], c3k_weight = Fin 0, has_errors = False,
     bad_flux_value = Fin 0, unweighted = False, logify_flux = False, features = [],
     reference_index = None, reference_spectrum = []\<rparr>"

definition zero_flux_model :: psimodel where
  "zero_flux_model = \<lparr>wavelengths = [Fin 5000], library_spectra = [[Fin 0]],
     library_labels = [\<lparr>miles_id = ''s1''\<rparr>], library_snr = [[Fin 0]],
     library_mask = [True], c3k_weight = Fin (1 / 10), has_errors = True,
     bad_flux_value = Fin 0, unweighted = False, logify_flux = False, features = [],
     reference_index = None, reference_spectrum = []\<rparr>"

text \<open>
  A library file with an entry of each bad kind (a zero uncertainty, a negative
  signal-to-noise, a NaN flux) and the state to which the default arguments load it.
\<close>

definition example_file :: h5file where
  "example_file = \<lparr>f_wavelengths = [Fin 4000, Fin 5000],
     f_spectra = [[Fin 1, Fin 2], [Fin 3, NaN]],
     f_parameters = [\<lparr>miles_id = ''s1''\<rparr>, \<lparr>miles_id = ''c3k''\<rparr>],
     f_uncertainties = [[Fin 0, Fin 1], [Fin (- 1), Fin 1]]\<rparr>"

definition example_loaded :: psimodel where
  "example_loaded = \<lparr>wavelengths = [Fin 4000, Fin 5000],
     library_spectra = [[Fin 2, Fin 2], [Fin 2, Fin 2]],
     library_labels = [\<lparr>miles_id = ''s1''\<rparr>, \<lparr>miles_id = ''c3k''\<rparr>],
     library_snr = [[Fin 0, Fin 2], [Fin 0, Fin 0]],
     library_mask = [True, True], c3k_weight = Fin (1 / 10), has_errors = True,
     bad_flux_value = Fin 2, unweighted = False, logify_flux = False, features = [],
     reference_index = None, reference_spectrum = []\<rparr>"

text \<open>
  Two structured arrays: one with a field and no record, one with two fields and three
  records.
\<close>

definition empty_struct :: struct where
  "empty_struct = \<lparr>dtype_names = [''teff''], records = []\<rparr>"

definition example_struct :: struct where
  "example_struct = \<lparr>dtype_names = [''teff'', ''logg''],
     records = [[Fin 5000, Fin 4], [Fin 6000, Fin 3], [Fin 7000, Fin 2]]\<rparr>"

text \<open>
  A keyword dictionary whose values are all scalar floats, as the list of its items; an
  example, and the structured array \<open>make_struct\<close> makes of it.
\<close>

definition scalars :: "(string \<times> npfloat) list \<Rightarrow> (string \<times> label_value) list" where
  "scalars d = map (\<lambda>(n, x). (n, Scalar x)) d"

definition example_dict :: "(string \<times> npfloat) list" where
  "example_dict = [(''teff'', Fin 5000), (''logg'', Fin 4)]"

definition example_labels :: struct where
  "example_labels = \<lparr>dtype_names = [''teff'', ''logg''], records = [[Fin 5000, Fin 4]]\<rparr>"

section \<open>Properties\<close>

subsection \<open>The example library\<close>

lemma example_training [simp]:
  "training_snr example_model = [[Fin 1, Fin 0], [Fin 2, Fin 0], [Fin 3, Fin 5], [Fin 4, Fin 0], [Fin 7, Fin 7]]"
  "training_labels example_model = [\<lparr>miles_id = ''s1''\<rparr>, \<lparr>miles_id = ''s2''\<rparr>, \<lparr>miles_id = ''s3''\<rparr>,
                       \<lparr>miles_id = ''s4''\<rparr>, \<lparr>miles_id = ''c3k''\<rparr>]"
  "training_spectra example_model = [[Fin 1, Fin 2], [Fin 2, Fin 2], [Fin 3, Fin 1], [Fin 4, Fin 2], [Fin 5, Fin 5]]"
  by (simp_all add: training_snr_def training_labels_def training_spectra_def masked_def example_model_def)

lemma example_fields [simp]:
  "has_errors example_model" "\<not> unweighted example_model" "logify_flux example_model"
  "c3k_weight example_model = Fin (1 / 10)"
  by (simp_all add: example_model_def)

lemma fsq_Fin [simp]: "fsq (Fin a) = Fin (a * a)" by (simp add: fsq_def)
lemma fsq_PInf [simp]: "fsq PInf = PInf" by (simp add: fsq_def)
lemma fsq_NInf [simp]: "fsq NInf = PInf" by (simp add: fsq_def)
lemma fsq_NaN [simp]: "fsq NaN = NaN" by (simp add: fsq_def)

lemma example_width [simp]: "n_columns (library_snr example_model) = 2"
  by (simp add: n_columns_def example_model_def)

lemma example_get_weights:
  "get_weights example_model [0, 1] [] = Inr (Some example_weights)"
  by (simp add: get_weights_def take_columns_def example_weights_def
      nanmedian_def median_sorted_def column_def masked_def feq_def rank_def)

lemma example_linear_fields [simp]:
  "has_errors (example_model\<lparr>logify_flux := False\<rparr>)"
  "\<not> unweighted (example_model\<lparr>logify_flux := False\<rparr>)"
  "\<not> logify_flux (example_model\<lparr>logify_flux := False\<rparr>)"
  "c3k_weight (example_model\<lparr>logify_flux := False\<rparr>) = Fin (1 / 10)"
  "training_snr (example_model\<lparr>logify_flux := False\<rparr>) = training_snr example_model"
  "training_labels (example_model\<lparr>logify_flux := False\<rparr>) = training_labels example_model"
  by (simp_all add: example_model_def training_snr_def training_labels_def)

lemma example_get_weights_linear:
  "get_weights (example_model\<lparr>logify_flux := False\<rparr>) [0, 1] example_spec
     = Inr (Some example_linear_weights)"
  by (simp add: get_weights_def take_columns_def example_linear_weights_def
      elementwise_def same_shape_def example_spec_def
      nanmedian_def median_sorted_def column_def masked_def feq_def rank_def)

lemma example_input_ok:
  "weights_input_ok example_model [0, 1] []"
  "weights_input_ok (example_model\<lparr>logify_flux := False\<rparr>) [0, 1] example_spec"
  by (simp_all add: weights_input_ok_def example_spec_def)

subsection \<open>get_weights\<close>

lemma masked_nth_filter:
  "length flags = length xs \<Longrightarrow>
   masked flags xs = map (\<lambda>r. xs ! r) (filter (\<lambda>r. flags ! r) [0..<length xs])"
proof (induction xs arbitrary: flags rule: rev_induct)
  case Nil
  then show ?case by (simp add: masked_def)
next
  case (snoc x xs)
  then obtain fs f where fl: "flags = fs @ [f]" "length fs = length xs"
    by (metis length_append_singleton length_Suc_conv_rev)
  have "masked fs xs = map (\<lambda>r. xs ! r) (filter (\<lambda>r. fs ! r) [0..<length xs])"
    using snoc.IH fl by simp
  moreover have "map (\<lambda>r. xs ! r) (filter (\<lambda>r. fs ! r) [0..<length xs])
     = map (\<lambda>r. (xs @ [x]) ! r) (filter (\<lambda>r. (fs @ [f]) ! r) [0..<length xs])"
    using fl by (auto simp: nth_append intro!: map_cong filter_cong)
  ultimately show ?case using fl
    by (auto simp: masked_def nth_append)
qed

lemma c3k_flags_nth:
  "i < length (training_labels self) \<Longrightarrow>
   c3k_flags self ! i = (miles_id (training_labels self ! i) = ''c3k'')"
  by (simp add: c3k_flags_def)

lemma length_c3k_flags: "length (c3k_flags self) = length (training_labels self)"
  by (simp add: c3k_flags_def)

lemma length_rescale:
  "length (training_labels self) = length rw \<Longrightarrow> length (rescale self n rw) = length rw"
  by (simp add: rescale_def Let_def length_c3k_flags)

lemma rescale_unflagged:
  assumes "length (training_labels self) = length rw" "i < length rw"
    "miles_id (training_labels self ! i) \<noteq> ''c3k''"
  shows "rescale self n rw ! i = rw ! i"
  using assms by (simp add: rescale_def Let_def length_c3k_flags c3k_flags_nth)

lemma rescale_flagged:
  assumes "length (training_labels self) = length rw" "i < length rw"
    "miles_id (training_labels self ! i) = ''c3k''" "k < n"
  shows "rescale self n rw ! i ! k =
    fmul (let m = nanmedian (column k (masked (map Not (c3k_flags self)) rw))
          in if feq m (Fin 0) then Fin 1 else m) (c3k_weight self)"
  using assms by (simp add: rescale_def Let_def length_c3k_flags c3k_flags_nth)


lemma unflagged_column:
  assumes len: "length (training_labels self) = length rw"
  shows "column k (masked (map Not (c3k_flags self)) rw) =
    map (\<lambda>r. rw ! r ! k)
      (filter (\<lambda>r. miles_id (training_labels self ! r) \<noteq> ''c3k'') [0..<length rw])"
proof -
  have "masked (map Not (c3k_flags self)) rw =
      map (\<lambda>r. rw ! r) (filter (\<lambda>r. map Not (c3k_flags self) ! r) [0..<length rw])"
    by (rule masked_nth_filter) (simp add: length_c3k_flags len)
  also have "filter (\<lambda>r. map Not (c3k_flags self) ! r) [0..<length rw] =
      filter (\<lambda>r. miles_id (training_labels self ! r) \<noteq> ''c3k'') [0..<length rw]"
    by (rule filter_cong) (simp_all add: length_c3k_flags c3k_flags_nth len)
  finally show ?thesis
    by (simp add: column_def)
qed

lemma length_base_weights:
  assumes ok: "weights_input_ok self ind_wave spec"
  shows "length (base_weights self ind_wave spec) = length (training_snr self)"
proof (cases "logify_flux self")
  case True
  then show ?thesis by (simp add: base_weights_def)
next
  case False
  then have "map length spec = map (\<lambda>row. length ind_wave) (training_snr self)"
    using ok by (simp add: weights_input_ok_def)
  then have "length spec = length (training_snr self)"
    by (metis length_map)
  then show ?thesis using False by (simp add: base_weights_def)
qed

lemma base_weights_nth:
  assumes ok: "weights_input_ok self ind_wave spec"
    and i: "i < length (training_snr self)" and k: "k < length ind_wave"
  shows "base_weights self ind_wave spec ! i ! k = relative_weight self ind_wave spec i k"
proof (cases "logify_flux self")
  case True
  then show ?thesis using i k by (simp add: base_weights_def relative_weight_def)
next
  case False
  then have sp: "map length spec = map (\<lambda>row. length ind_wave) (training_snr self)"
    using ok by (simp add: weights_input_ok_def)
  then have ls: "length spec = length (training_snr self)"
    by (metis length_map)
  have "map length spec ! i = map (\<lambda>row. length ind_wave) (training_snr self) ! i"
    by (simp only: sp)
  then have "length (spec ! i) = length ind_wave"
    using i ls by simp
  then show ?thesis
    using False i k ls by (simp add: base_weights_def relative_weight_def)
qed

lemma get_weights_returns:
  assumes "has_errors self" "\<not> unweighted self" "weights_input_ok self ind_wave spec"
  shows "get_weights self ind_wave spec =
     Inr (Some (rescale self (length ind_wave) (base_weights self ind_wave spec)))"
proof -
  let ?snr = "map (\<lambda>row. map (\<lambda>j. row ! j) ind_wave) (training_snr self)"
  have "list_all (\<lambda>row. list_all (\<lambda>j. j < length row) ind_wave) (training_snr self)"
    using assms(3) by (auto simp: weights_input_ok_def list_all_iff)
  then have tc: "take_columns (n_columns (library_snr self)) (training_snr self) ind_wave = Inr ?snr"
    using assms(3) by (simp add: take_columns_def weights_input_ok_def)
  have len: "length (training_labels self) = length (base_weights self ind_wave spec)"
    using assms(3) length_base_weights by (simp add: weights_input_ok_def)
  show ?thesis
  proof (cases "logify_flux self")
    case True
    then have b: "base_weights self ind_wave spec = map (map fsq) ?snr"
      by (simp add: base_weights_def)
    show ?thesis
      using assms(1,2) True len unfolding b
      by (simp add: get_weights_def tc rescale_def c3k_flags_def Let_def)
  next
    case False
    then have "map length spec = map (\<lambda>row. length ind_wave) (training_snr self)"
      using assms(3) by (simp add: weights_input_ok_def)
    then have sh: "same_shape ?snr spec"
      by (simp add: same_shape_def comp_def)
    have b: "base_weights self ind_wave spec = map (map fsq) (map2 (map2 fdiv) ?snr spec)"
      using False by (simp add: base_weights_def)
    show ?thesis
      using assms(1,2) False len sh unfolding b
      by (simp add: get_weights_def tc rescale_def c3k_flags_def Let_def elementwise_def)
  qed
qed


lemma get_weights_entries:
  assumes "has_errors self" "\<not> unweighted self" "weights_input_ok self ind_wave spec"
  shows "\<exists>w. get_weights self ind_wave spec = Inr (Some w)
     \<and> length w = length (training_labels self)
     \<and> (\<forall>i k. i < length w \<and> k < length ind_wave \<longrightarrow>
          w ! i ! k =
            (if miles_id (training_labels self ! i) = ''c3k''
             then fmul (let m = nanmedian (map (\<lambda>r. relative_weight self ind_wave spec r k)
                            (filter (\<lambda>r. miles_id (training_labels self ! r) \<noteq> ''c3k'')
                               [0..<length w]))
                        in if feq m (Fin 0) then Fin 1 else m) (c3k_weight self)
             else relative_weight self ind_wave spec i k))"
proof -
  let ?rw = "base_weights self ind_wave spec"
  let ?w = "rescale self (length ind_wave) ?rw"
  let ?N = "length (training_labels self)"
  have n: "length (training_snr self) = ?N"
    using assms(3) by (simp add: weights_input_ok_def)
  have len: "?N = length ?rw"
    using length_base_weights [OF assms(3)] n by simp
  have lw: "length ?w = ?N"
    using length_rescale [OF len] len by simp
  have ret: "get_weights self ind_wave spec = Inr (Some ?w)"
    using assms by (rule get_weights_returns)
  have ent: "?w ! i ! k =
            (if miles_id (training_labels self ! i) = ''c3k''
             then fmul (let m = nanmedian (map (\<lambda>r. relative_weight self ind_wave spec r k)
                            (filter (\<lambda>r. miles_id (training_labels self ! r) \<noteq> ''c3k'')
                               [0..<length ?w]))
                        in if feq m (Fin 0) then Fin 1 else m) (c3k_weight self)
             else relative_weight self ind_wave spec i k)"
    if i: "i < length ?w" and k: "k < length ind_wave" for i k
  proof (cases "miles_id (training_labels self ! i) = ''c3k''")
    case False
    have "?w ! i = ?rw ! i"
      using i lw len False by (intro rescale_unflagged) simp_all
    then show ?thesis
      using False base_weights_nth [OF assms(3) _ k, of i] i lw n by simp
  next
    case True
    have "map (\<lambda>r. ?rw ! r ! k) (filter (\<lambda>r. miles_id (training_labels self ! r) \<noteq> ''c3k'') [0..<?N])
        = map (\<lambda>r. relative_weight self ind_wave spec r k)
            (filter (\<lambda>r. miles_id (training_labels self ! r) \<noteq> ''c3k'') [0..<?N])"
      using base_weights_nth [OF assms(3) _ k] n by (intro map_cong) simp_all
    then have col: "column k (masked (map Not (c3k_flags self)) ?rw)
        = map (\<lambda>r. relative_weight self ind_wave spec r k)
            (filter (\<lambda>r. miles_id (training_labels self ! r) \<noteq> ''c3k'') [0..<length ?w])"
      using unflagged_column [OF len, of k] len lw by simp
    have "?w ! i ! k = fmul (let m = nanmedian (column k (masked (map Not (c3k_flags self)) ?rw))
          in if feq m (Fin 0) then Fin 1 else m) (c3k_weight self)"
      using i lw len True k by (intro rescale_flagged) simp_all
    then have "?w ! i ! k = fmul (let m = nanmedian (map (\<lambda>r. relative_weight self ind_wave spec r k)
                            (filter (\<lambda>r. miles_id (training_labels self ! r) \<noteq> ''c3k'')
                               [0..<length ?w]))
                        in if feq m (Fin 0) then Fin 1 else m) (c3k_weight self)"
      by (simp only: col)
    then show ?thesis using True by simp
  qed
  show ?thesis
  proof (intro exI [of _ ?w] conjI allI impI)
    show "get_weights self ind_wave spec = Inr (Some ?w)" by (rule ret)
    show "length ?w = ?N" by (rule lw)
    show "?w ! i ! k =
            (if miles_id (training_labels self ! i) = ''c3k''
             then fmul (let m = nanmedian (map (\<lambda>r. relative_weight self ind_wave spec r k)
                            (filter (\<lambda>r. miles_id (training_labels self ! r) \<noteq> ''c3k'')
                               [0..<length ?w]))
                        in if feq m (Fin 0) then Fin 1 else m) (c3k_weight self)
             else relative_weight self ind_wave spec i k)"
      if "i < length ?w \<and> k < length ind_wave" for i k
      using that ent by blast
  qed
qed


text \<open>
  C1. For every selected wavelength, every row flagged as belonging to the c3k
  sub-population gets one and the same weight: the median (NaN entries ignored) of the
  weights of the non-flagged rows at that wavelength, with a median equal to zero replaced
  by 1.0, multiplied by \<open>c3k_weight\<close>; the non-flagged rows carry the weight of the base
  rule; and \<open>c3k_weight\<close> is 0.1 when the keyword is left out on loading.
\<close>

theorem c3k_rows_weight:
  assumes "has_errors self" and "\<not> unweighted self"
    and "weights_input_ok self ind_wave spec"
  shows "\<exists>w. get_weights self ind_wave spec = Inr (Some w)
     \<and> length w = length (training_labels self)
     \<and> (\<forall>i k. i < length w \<and> k < length ind_wave
            \<and> miles_id (training_labels self ! i) = ''c3k'' \<longrightarrow>
          w ! i ! k =
            fmul (let m = nanmedian (map (\<lambda>r. w ! r ! k)
                            (filter (\<lambda>r. miles_id (training_labels self ! r) \<noteq> ''c3k'')
                               [0..<length w]))
                  in if feq m (Fin 0) then Fin 1 else m) (c3k_weight self))
     \<and> (\<forall>r k. r < length w \<and> k < length ind_wave
            \<and> miles_id (training_labels self ! r) \<noteq> ''c3k'' \<longrightarrow>
          w ! r ! k = relative_weight self ind_wave spec r k)
     \<and> (\<forall>self0 f thr self1. load_training_data self0 f None thr = Inr self1
          \<longrightarrow> c3k_weight self1 = Fin (1 / 10))"
proof -
  from get_weights_entries [OF assms] obtain w where
    ret: "get_weights self ind_wave spec = Inr (Some w)"
    and lw: "length w = length (training_labels self)"
    and ent: "\<And>i k. i < length w \<and> k < length ind_wave \<Longrightarrow>
          w ! i ! k =
            (if miles_id (training_labels self ! i) = ''c3k''
             then fmul (let m = nanmedian (map (\<lambda>r. relative_weight self ind_wave spec r k)
                            (filter (\<lambda>r. miles_id (training_labels self ! r) \<noteq> ''c3k'')
                               [0..<length w]))
                        in if feq m (Fin 0) then Fin 1 else m) (c3k_weight self)
             else relative_weight self ind_wave spec i k)"
    by blast
  have un: "w ! r ! k = relative_weight self ind_wave spec r k"
    if "r < length w \<and> k < length ind_wave \<and> miles_id (training_labels self ! r) \<noteq> ''c3k''"
    for r k
    using ent [of r k] that by simp
  have fl: "w ! i ! k =
            fmul (let m = nanmedian (map (\<lambda>r. w ! r ! k)
                            (filter (\<lambda>r. miles_id (training_labels self ! r) \<noteq> ''c3k'')
                               [0..<length w]))
                  in if feq m (Fin 0) then Fin 1 else m) (c3k_weight self)"
    if h: "i < length w \<and> k < length ind_wave \<and> miles_id (training_labels self ! i) = ''c3k''"
    for i k
  proof -
    have "map (\<lambda>r. w ! r ! k)
            (filter (\<lambda>r. miles_id (training_labels self ! r) \<noteq> ''c3k'') [0..<length w])
        = map (\<lambda>r. relative_weight self ind_wave spec r k)
            (filter (\<lambda>r. miles_id (training_labels self ! r) \<noteq> ''c3k'') [0..<length w])"
      using un h by (intro map_cong) simp_all
    moreover have "w ! i ! k =
            fmul (let m = nanmedian (map (\<lambda>r. relative_weight self ind_wave spec r k)
                            (filter (\<lambda>r. miles_id (training_labels self ! r) \<noteq> ''c3k'')
                               [0..<length w]))
                  in if feq m (Fin 0) then Fin 1 else m) (c3k_weight self)"
      using ent [of i k] h by simp
    ultimately show ?thesis by (simp only:)
  qed
  have dflt: "c3k_weight self1 = Fin (1 / 10)"
    if "load_training_data self0 f None thr = Inr self1" for self0 f thr self1
    using that
    by (auto simp: load_training_data_def reset_mask_def Let_def split: sum.splits)
  show ?thesis
  proof (intro exI [of _ w] conjI allI impI)
    show "get_weights self ind_wave spec = Inr (Some w)" by (rule ret)
    show "length w = length (training_labels self)" by (rule lw)
    show "w ! i ! k =
            fmul (let m = nanmedian (map (\<lambda>r. w ! r ! k)
                            (filter (\<lambda>r. miles_id (training_labels self ! r) \<noteq> ''c3k'')
                               [0..<length w]))
                  in if feq m (Fin 0) then Fin 1 else m) (c3k_weight self)"
      if "i < length w \<and> k < length ind_wave \<and> miles_id (training_labels self ! i) = ''c3k''"
      for i k
      using that by (rule fl)
    show "w ! r ! k = relative_weight self ind_wave spec r k"
      if "r < length w \<and> k < length ind_wave \<and> miles_id (training_labels self ! r) \<noteq> ''c3k''"
      for r k
      using that by (rule un)
    show "c3k_weight self1 = Fin (1 / 10)"
      if "load_training_data self0 f None thr = Inr self1" for self0 f thr self1
      using that by (rule dflt)
  qed
qed

text \<open>
  C2. For every non-flagged training row and selected wavelength, when weighting is
  enabled the weight is the squared signal-to-noise if the model fits log flux, and
  otherwise the square of the signal-to-noise divided by the flux value, which is how the
  code divides the squared signal-to-noise by the squared flux.
\<close>

theorem unflagged_rows_weight:
  assumes "has_errors self" and "\<not> unweighted self"
    and "weights_input_ok self ind_wave spec"
  shows "\<exists>w. get_weights self ind_wave spec = Inr (Some w)
     \<and> length w = length (training_labels self)
     \<and> (\<forall>i k. i < length w \<and> k < length ind_wave
            \<and> miles_id (training_labels self ! i) \<noteq> ''c3k'' \<longrightarrow>
          w ! i ! k =
            (if logify_flux self then fsq (training_snr self ! i ! (ind_wave ! k))
             else fsq (fdiv (training_snr self ! i ! (ind_wave ! k)) (spec ! i ! k))))"
proof -
  from get_weights_entries [OF assms] obtain w where
    ret: "get_weights self ind_wave spec = Inr (Some w)"
    and lw: "length w = length (training_labels self)"
    and ent: "\<And>i k. i < length w \<and> k < length ind_wave \<Longrightarrow>
          w ! i ! k =
            (if miles_id (training_labels self ! i) = ''c3k''
             then fmul (let m = nanmedian (map (\<lambda>r. relative_weight self ind_wave spec r k)
                            (filter (\<lambda>r. miles_id (training_labels self ! r) \<noteq> ''c3k'')
                               [0..<length w]))
                        in if feq m (Fin 0) then Fin 1 else m) (c3k_weight self)
             else relative_weight self ind_wave spec i k)"
    by blast
  show ?thesis
  proof (intro exI [of _ w] conjI allI impI)
    show "get_weights self ind_wave spec = Inr (Some w)" by (rule ret)
    show "length w = length (training_labels self)" by (rule lw)
    show "w ! i ! k =
            (if logify_flux self then fsq (training_snr self ! i ! (ind_wave ! k))
             else fsq (fdiv (training_snr self ! i ! (ind_wave ! k)) (spec ! i ! k)))"
      if "i < length w \<and> k < length ind_wave \<and> miles_id (training_labels self ! i) \<noteq> ''c3k''"
      for i k
      using ent [of i k] that by (simp add: relative_weight_def)
  qed
qed


theorem c3k_rows_weight_witness:
  "has_errors (example_model\<lparr>logify_flux := False\<rparr>)
   \<and> weights_input_ok (example_model\<lparr>logify_flux := False\<rparr>) [0, 1] example_spec
   \<and> get_weights (example_model\<lparr>logify_flux := False\<rparr>) [0, 1] example_spec
       = Inr (Some example_linear_weights)
   \<and> miles_id (training_labels (example_model\<lparr>logify_flux := False\<rparr>) ! 4) = ''c3k''
   \<and> example_linear_weights ! 4 ! 0
       = fmul (Fin 4) (c3k_weight (example_model\<lparr>logify_flux := False\<rparr>))
   \<and> example_linear_weights ! 4 ! 0 = Fin (2 / 5)"
proof -
  let ?m = "example_model\<lparr>logify_flux := False\<rparr>"
  have h: "has_errors ?m" "\<not> unweighted ?m" by simp_all
  from c3k_rows_weight [OF h example_input_ok(2)] obtain w where
    ret: "get_weights ?m [0, 1] example_spec = Inr (Some w)"
    and fl: "\<forall>i k. i < length w \<and> k < length [0, 1 :: nat]
            \<and> miles_id (training_labels ?m ! i) = ''c3k'' \<longrightarrow>
          w ! i ! k =
            fmul (let m = nanmedian (map (\<lambda>r. w ! r ! k)
                            (filter (\<lambda>r. miles_id (training_labels ?m ! r) \<noteq> ''c3k'')
                               [0..<length w]))
                  in if feq m (Fin 0) then Fin 1 else m) (c3k_weight ?m)"
    by blast
  have w: "w = example_linear_weights"
    using ret by (simp only: example_get_weights_linear sum.inject option.inject)
  have "(4::nat) < length w \<and> (0::nat) < length [0, 1 :: nat]
      \<and> miles_id (training_labels ?m ! 4) = ''c3k''"
    by (simp add: w example_linear_weights_def)
  with fl have "w ! 4 ! 0 =
            fmul (let m = nanmedian (map (\<lambda>r. w ! r ! 0)
                            (filter (\<lambda>r. miles_id (training_labels ?m ! r) \<noteq> ''c3k'')
                               [0..<length w]))
                  in if feq m (Fin 0) then Fin 1 else m) (c3k_weight ?m)"
    by blast
  then have "example_linear_weights ! 4 ! 0 = fmul (Fin 4) (c3k_weight ?m)"
    unfolding w
    by (simp add: example_linear_weights_def nanmedian_def median_sorted_def rank_def feq_def)
  then show ?thesis
    using h example_input_ok(2) example_get_weights_linear
    by (simp add: example_linear_weights_def)
qed

theorem unflagged_rows_weight_witness:
  "weights_input_ok (example_model\<lparr>logify_flux := False\<rparr>) [0, 1] example_spec
   \<and> get_weights (example_model\<lparr>logify_flux := False\<rparr>) [0, 1] example_spec
       = Inr (Some example_linear_weights)
   \<and> example_linear_weights ! 1 ! 0 = fsq (fdiv (Fin 2) (Fin 1))
   \<and> weights_input_ok example_model [0, 1] []
   \<and> get_weights example_model [0, 1] [] = Inr (Some example_weights)
   \<and> example_weights ! 2 ! 1 = fsq (Fin 5)"
proof -
  let ?m = "example_model\<lparr>logify_flux := False\<rparr>"
  have h: "has_errors ?m" "\<not> unweighted ?m" by simp_all
  from unflagged_rows_weight [OF h example_input_ok(2)] obtain w where
    ret: "get_weights ?m [0, 1] example_spec = Inr (Some w)"
    and un: "\<forall>i k. i < length w \<and> k < length [0, 1 :: nat]
            \<and> miles_id (training_labels ?m ! i) \<noteq> ''c3k'' \<longrightarrow>
          w ! i ! k =
            (if logify_flux ?m then fsq (training_snr ?m ! i ! ([0, 1] ! k))
             else fsq (fdiv (training_snr ?m ! i ! ([0, 1] ! k)) (example_spec ! i ! k)))"
    by blast
  have w: "w = example_linear_weights"
    using ret by (simp only: example_get_weights_linear sum.inject option.inject)
  have "(1::nat) < length w \<and> (0::nat) < length [0, 1 :: nat]
      \<and> miles_id (training_labels ?m ! 1) \<noteq> ''c3k''"
    by (simp add: w example_linear_weights_def)
  with un have "w ! 1 ! 0 =
            (if logify_flux ?m then fsq (training_snr ?m ! 1 ! ([0, 1] ! 0))
             else fsq (fdiv (training_snr ?m ! 1 ! ([0, 1] ! 0)) (example_spec ! 1 ! 0)))"
    by blast
  then have lin: "example_linear_weights ! 1 ! 0 = fsq (fdiv (Fin 2) (Fin 1))"
    unfolding w by (simp add: example_spec_def)
  have g: "has_errors example_model" "\<not> unweighted example_model" by simp_all
  from unflagged_rows_weight [OF g example_input_ok(1)] obtain v where
    retv: "get_weights example_model [0, 1] [] = Inr (Some v)"
    and unv: "\<forall>i k. i < length v \<and> k < length [0, 1 :: nat]
            \<and> miles_id (training_labels example_model ! i) \<noteq> ''c3k'' \<longrightarrow>
          v ! i ! k =
            (if logify_flux example_model then fsq (training_snr example_model ! i ! ([0, 1] ! k))
             else fsq (fdiv (training_snr example_model ! i ! ([0, 1] ! k)) ([] ! i ! k)))"
    by blast
  have v: "v = example_weights"
    using retv by (simp only: example_get_weights sum.inject option.inject)
  have "(2::nat) < length v \<and> (1::nat) < length [0, 1 :: nat]
      \<and> miles_id (training_labels example_model ! 2) \<noteq> ''c3k''"
    by (simp add: v example_weights_def)
  with unv have "v ! 2 ! 1 =
            (if logify_flux example_model then fsq (training_snr example_model ! 2 ! ([0, 1] ! 1))
             else fsq (fdiv (training_snr example_model ! 2 ! ([0, 1] ! 1)) ([] ! 2 ! 1)))"
    by blast
  then have lg: "example_weights ! 2 ! 1 = fsq (Fin 5)"
    unfolding v by simp
  show ?thesis
    using lin lg example_input_ok example_get_weights example_get_weights_linear by blast
qed





text \<open>
  C4 (defect of the code). A star whose flux is zero loads with zero signal-to-noise and
  the median flux, here zero, in its place. Its weight is 0 when the model fits log flux,
  but when it fits linear flux the weight is the square of 0/0: NaN, which is not a
  non-negative number.
\<close>

theorem weights_nan_at_bad_pixel:
  "load_training_data linear_model zero_flux_file None None = Inr zero_flux_model
   \<and> training_spectra zero_flux_model = [[Fin 0]]
   \<and> weights_input_ok zero_flux_model [0] [[Fin 0]]
   \<and> get_weights zero_flux_model [0] [[Fin 0]] = Inr (Some [[NaN]])
   \<and> \<not> fge NaN (Fin 0)
   \<and> get_weights (zero_flux_model\<lparr>logify_flux := True\<rparr>) [0] [[Fin 0]] = Inr (Some [[Fin 0]])"
  by (simp add: load_training_data_def zero_flux_file_def linear_model_def zero_flux_model_def
      elementwise_def same_shape_def nanmedian_def median_sorted_def put_where_def reset_mask_def
      get_weights_def take_columns_def training_snr_def training_labels_def training_spectra_def
      masked_def column_def feq_def fge_def Let_def n_columns_def weights_input_ok_def)

theorem weights_nan_at_bad_pixel_witness:
  "weights_input_ok zero_flux_model [0] [[Fin 0]]
   \<and> get_weights zero_flux_model [0] [[Fin 0]] = Inr (Some [[NaN]])
   \<and> list_all (list_all isnan) [[NaN]]"
  using weights_nan_at_bad_pixel by simp


subsection \<open>load_training_data\<close>

lemma put_where_nth:
  assumes "length bad = length A" "i < length A" "length (bad ! i) = length (A ! i)"
    "j < length (A ! i)"
  shows "put_where bad v A ! i ! j = (if bad ! i ! j then v else A ! i ! j)"
  using assms by (simp add: put_where_def)

lemma same_shape_nth:
  assumes "same_shape A B"
  shows "length B = length A" and "i < length A \<Longrightarrow> length (B ! i) = length (A ! i)"
proof -
  show l: "length B = length A"
    using assms by (metis same_shape_def length_map)
  assume i: "i < length A"
  have "map length A ! i = map length B ! i"
    using assms by (simp add: same_shape_def)
  then show "length (B ! i) = length (A ! i)" using i l by simp
qed

text \<open>
  C3. Loading a library whose flux and uncertainties have one shape raises nothing, and
  every entry whose signal-to-noise is below the threshold (1e-10 unless given) or not
  finite gets signal-to-noise zero, whose square, the relative weight, is zero, and its
  flux replaced by the median of the whole library flux as read from the file.
\<close>

theorem load_training_data_bad_entries:
  assumes "same_shape (f_spectra f) (f_uncertainties f)"
  shows "\<exists>self1. load_training_data self f c3k thr = Inr self1 \<and>
     (\<forall>i j. i < length (f_spectra f) \<and> j < length (f_spectra f ! i) \<and>
        (let snr = fdiv (f_spectra f ! i ! j) (f_uncertainties f ! i ! j)
         in flt snr (case thr of None \<Rightarrow> Fin (1 / 10 ^ 10) | Some t \<Rightarrow> t) \<or> \<not> isfinite snr)
        \<longrightarrow> library_snr self1 ! i ! j = Fin 0
          \<and> fsq (library_snr self1 ! i ! j) = Fin 0
          \<and> library_spectra self1 ! i ! j = nanmedian (concat (f_spectra f)))"
proof -
  let ?S = "f_spectra f" and ?U = "f_uncertainties f"
  let ?t = "case thr of None \<Rightarrow> Fin (1 / 10 ^ 10) | Some t \<Rightarrow> t"
  let ?snr = "map2 (map2 fdiv) ?S ?U"
  let ?bad = "map (map (\<lambda>s. flt s ?t \<or> \<not> isfinite s)) ?snr"
  let ?bfv = "nanmedian (concat ?S)"
  let ?self1 = "reset_mask (self\<lparr>wavelengths := f_wavelengths f,
                   library_spectra := put_where ?bad ?bfv ?S,
                   library_labels := f_parameters f,
                   library_snr := put_where ?bad (Fin 0) ?snr,
                   c3k_weight := (case c3k of None \<Rightarrow> Fin (1 / 10) | Some c \<Rightarrow> c),
                   has_errors := True,
                   bad_flux_value := ?bfv\<rparr>)"
  have ret: "load_training_data self f c3k thr = Inr ?self1"
    using assms by (simp add: load_training_data_def elementwise_def Let_def)
  have snr: "library_snr ?self1 = put_where ?bad (Fin 0) ?snr"
    and spec: "library_spectra ?self1 = put_where ?bad ?bfv ?S"
    by (simp_all add: reset_mask_def)
  note sh = same_shape_nth [OF assms]
  have "library_snr ?self1 ! i ! j = Fin 0 \<and> fsq (library_snr ?self1 ! i ! j) = Fin 0
      \<and> library_spectra ?self1 ! i ! j = ?bfv"
    if i: "i < length ?S" and j: "j < length (?S ! i)"
      and b: "let snr = fdiv (?S ! i ! j) (?U ! i ! j) in flt snr ?t \<or> \<not> isfinite snr"
    for i j
  proof -
    have lu: "length (?U ! i) = length (?S ! i)" using sh(2) [OF i] .
    have sij: "?snr ! i ! j = fdiv (?S ! i ! j) (?U ! i ! j)"
      using i j sh(1) lu by simp
    have lsnr: "length ?snr = length ?S" "length (?snr ! i) = length (?S ! i)"
      using i sh(1) lu by simp_all
    have bij: "?bad ! i ! j"
      using b i j lsnr sij by (simp add: Let_def)
    have "put_where ?bad (Fin 0) ?snr ! i ! j = Fin 0"
      using i j lsnr bij by (subst put_where_nth) simp_all
    moreover have "put_where ?bad ?bfv ?S ! i ! j = ?bfv"
      using i j lsnr bij by (subst put_where_nth) simp_all
    ultimately have "library_snr ?self1 ! i ! j = Fin 0"
      and "library_spectra ?self1 ! i ! j = ?bfv"
      by (simp_all only: snr spec)
    moreover from this(1) have "fsq (library_snr ?self1 ! i ! j) = Fin 0"
      by (simp only: fsq_Fin mult_zero_left)
    ultimately show ?thesis by (intro conjI)
  qed
  then show ?thesis using ret by blast
qed


lemma example_load:
  "load_training_data linear_model example_file None None = Inr example_loaded"
  by (simp add: load_training_data_def example_file_def linear_model_def example_loaded_def
      elementwise_def same_shape_def nanmedian_def median_sorted_def put_where_def reset_mask_def
      rank_def inf_of_sign_def Let_def)

theorem load_training_data_bad_entries_witness:
  "same_shape (f_spectra example_file) (f_uncertainties example_file)
   \<and> load_training_data linear_model example_file None None = Inr example_loaded
   \<and> fdiv (f_spectra example_file ! 1 ! 0) (f_uncertainties example_file ! 1 ! 0) = Fin (- 3)
   \<and> flt (Fin (- 3)) (Fin (1 / 10 ^ 10))
   \<and> library_snr example_loaded ! 1 ! 0 = Fin 0
   \<and> library_spectra example_loaded ! 1 ! 0 = nanmedian (concat (f_spectra example_file))
   \<and> nanmedian (concat (f_spectra example_file)) = Fin 2"
proof -
  have sh: "same_shape (f_spectra example_file) (f_uncertainties example_file)"
    by (simp add: same_shape_def example_file_def)
  have q: "fdiv (f_spectra example_file ! 1 ! 0) (f_uncertainties example_file ! 1 ! 0) = Fin (- 3)"
    by (simp add: example_file_def)
  have m: "nanmedian (concat (f_spectra example_file)) = Fin 2"
    by (simp add: example_file_def nanmedian_def median_sorted_def rank_def)
  from load_training_data_bad_entries [OF sh, of linear_model None None]
  obtain self1 where l: "load_training_data linear_model example_file None None = Inr self1"
    and b: "\<forall>i j. i < length (f_spectra example_file) \<and> j < length (f_spectra example_file ! i) \<and>
        (let snr = fdiv (f_spectra example_file ! i ! j) (f_uncertainties example_file ! i ! j)
         in flt snr (case None of None \<Rightarrow> Fin (1 / 10 ^ 10) | Some t \<Rightarrow> t) \<or> \<not> isfinite snr)
        \<longrightarrow> library_snr self1 ! i ! j = Fin 0
          \<and> fsq (library_snr self1 ! i ! j) = Fin 0
          \<and> library_spectra self1 ! i ! j = nanmedian (concat (f_spectra example_file))"
    by blast
  have s: "self1 = example_loaded" using l by (simp add: example_load)
  have "(1::nat) < length (f_spectra example_file) \<and> (0::nat) < length (f_spectra example_file ! 1) \<and>
        (let snr = fdiv (f_spectra example_file ! 1 ! 0) (f_uncertainties example_file ! 1 ! 0)
         in flt snr (case None of None \<Rightarrow> Fin (1 / 10 ^ 10) | Some t \<Rightarrow> t) \<or> \<not> isfinite snr)"
    unfolding q by (simp add: example_file_def)
  with b have "library_snr self1 ! 1 ! 0 = Fin 0
      \<and> library_spectra self1 ! 1 ! 0 = nanmedian (concat (f_spectra example_file))"
    by blast
  then show ?thesis using sh q m example_load unfolding s by simp
qed


subsection \<open>build_training_info\<close>

lemma foldl_fadd_Fin: "foldl fadd (Fin a) (map Fin xs) = Fin (a + sum_list xs)"
  by (induction xs arbitrary: a) (simp_all add: add.assoc)

lemma fsum_Fin: "fsum (map Fin xs) = Fin (sum_list xs)"
  by (simp add: fsum_def foldl_fadd_Fin)

lemma mean_Fin: "xs \<noteq> [] \<Longrightarrow> mean (map Fin xs) = Fin (sum_list xs / real (length xs))"
  by (simp add: mean_def fsum_Fin)

lemma std_Fin:
  assumes "xs \<noteq> []"
  shows "std (map Fin xs) =
    Fin (sqrt ((\<Sum>x\<leftarrow>xs. (x - sum_list xs / real (length xs))\<^sup>2) / real (length xs)))"
proof -
  let ?mu = "sum_list xs / real (length xs)"
  have e: "map (\<lambda>x. fsq (fsub x (Fin ?mu))) (map Fin xs) = map Fin (map (\<lambda>x. (x - ?mu)\<^sup>2) xs)"
    by (simp add: fsub_def power2_eq_square)
  have "mean (map Fin (map (\<lambda>x. (x - ?mu)\<^sup>2) xs))
      = Fin ((\<Sum>x\<leftarrow>xs. (x - ?mu)\<^sup>2) / real (length xs))"
    using assms by (subst mean_Fin) simp_all
  then have "mean (map (\<lambda>x. fsq (fsub x (Fin ?mu))) (map Fin xs))
      = Fin ((\<Sum>x\<leftarrow>xs. (x - ?mu)\<^sup>2) / real (length xs))"
    by (simp only: e)
  then have "std (map Fin xs) = fsqrt (Fin ((\<Sum>x\<leftarrow>xs. (x - ?mu)\<^sup>2) / real (length xs)))"
    by (simp only: std_def Let_def mean_Fin [OF assms])
  moreover have "0 \<le> (\<Sum>x\<leftarrow>xs. (x - ?mu)\<^sup>2) / real (length xs)"
    by (intro divide_nonneg_nonneg sum_list_nonneg) auto
  ultimately show ?thesis
    by (simp add: not_less [symmetric])
qed

lemma masked_update:
  "i < length flags \<Longrightarrow> \<not> flags ! i \<Longrightarrow> masked flags (xs[i := r]) = masked flags xs"
proof (induction flags arbitrary: xs i)
  case Nil
  then show ?case by simp
next
  case (Cons f fs)
  show ?case
  proof (cases xs)
    case Nil
    then show ?thesis by simp
  next
    case (Cons y ys)
    show ?thesis
    proof (cases i)
      case 0
      then show ?thesis using Cons.prems Cons by (simp add: masked_def)
    next
      case (Suc j)
      then have "masked fs (ys[j := r]) = masked fs ys"
        using Cons.prems Cons.IH by simp
      then show ?thesis using Suc Cons by (simp add: masked_def)
    qed
  qed
qed

lemma n_columns_update:
  "i < length M \<Longrightarrow> length r = length (M ! i) \<Longrightarrow> n_columns (M[i := r]) = n_columns M"
  by (cases M; cases i) (simp_all add: n_columns_def)

text \<open>
  C7. Building the training info sets the reference index to none and the reference
  spectrum to the standard deviation, per wavelength, of the flux over the rows that are
  currently in the mask: on finite flux the square root of the mean squared deviation from
  the mean. It depends only on the masked rows: replacing a masked-out library row by
  another row of its length leaves it unchanged.
\<close>

theorem build_training_info_reference:
  "reference_index (build_training_info self) = None
   \<and> reference_spectrum (build_training_info self)
       = map (\<lambda>k. std (column k (training_spectra self))) [0..<n_columns (library_spectra self)]
   \<and> (\<forall>xs. xs \<noteq> [] \<longrightarrow> std (map Fin xs) =
         Fin (sqrt ((\<Sum>x\<leftarrow>xs. (x - sum_list xs / real (length xs))\<^sup>2) / real (length xs))))
   \<and> (\<forall>i (row :: vector). i < length (library_mask self) \<and> \<not> library_mask self ! i
         \<and> i < length (library_spectra self) \<and> length row = length (library_spectra self ! i)
       \<longrightarrow> reference_spectrum
             (build_training_info (self\<lparr>library_spectra := (library_spectra self)[i := row]\<rparr>))
           = reference_spectrum (build_training_info self))"
proof (intro conjI allI impI)
  show "reference_index (build_training_info self) = None"
    by (simp add: build_training_info_def)
  show "reference_spectrum (build_training_info self)
       = map (\<lambda>k. std (column k (training_spectra self))) [0..<n_columns (library_spectra self)]"
    by (simp add: build_training_info_def)
next
  fix xs :: "real list"
  assume "xs \<noteq> []"
  then show "std (map Fin xs) =
       Fin (sqrt ((\<Sum>x\<leftarrow>xs. (x - sum_list xs / real (length xs))\<^sup>2) / real (length xs)))"
    by (rule std_Fin)
next
  fix i and row :: vector
  assume h: "i < length (library_mask self) \<and> \<not> library_mask self ! i
         \<and> i < length (library_spectra self) \<and> length row = length (library_spectra self ! i)"
  then have "training_spectra (self\<lparr>library_spectra := (library_spectra self)[i := row]\<rparr>)
      = training_spectra self"
    by (simp add: training_spectra_def masked_update)
  moreover have "n_columns ((library_spectra self)[i := row]) = n_columns (library_spectra self)"
    using h by (simp add: n_columns_update)
  ultimately show "reference_spectrum
             (build_training_info (self\<lparr>library_spectra := (library_spectra self)[i := row]\<rparr>))
           = reference_spectrum (build_training_info self)"
    by (simp add: build_training_info_def)
qed

theorem build_training_info_reference_witness:
  "[Fin 1, Fin 2, Fin 3, Fin 4, Fin 5] = column 0 (training_spectra example_model)
   \<and> reference_index (build_training_info example_model) = None
   \<and> reference_spectrum (build_training_info example_model) ! 0 = Fin (sqrt 2)
   \<and> \<not> library_mask example_model ! 4
   \<and> reference_spectrum (build_training_info
        (example_model\<lparr>library_spectra := (library_spectra example_model)[4 := [Fin 100, Fin 0]]\<rparr>))
      = reference_spectrum (build_training_info example_model)"
proof -
  note t = build_training_info_reference [of example_model]
  have c: "column 0 (training_spectra example_model) = map Fin [1, 2, 3, 4, 5]"
    by (simp add: column_def)
  have n: "n_columns (library_spectra example_model) = 2"
    by (simp add: n_columns_def example_model_def)
  from t have "\<forall>xs. xs \<noteq> [] \<longrightarrow> std (map Fin xs) =
         Fin (sqrt ((\<Sum>x\<leftarrow>xs. (x - sum_list xs / real (length xs))\<^sup>2) / real (length xs)))"
    by blast
  from this [rule_format, of "[1, 2, 3, 4, 5]"]
  have "std (map Fin [1, 2, 3, 4, 5]) = Fin (sqrt 2)"
    by (simp add: power2_eq_square)
  then have "reference_spectrum (build_training_info example_model) ! 0 = Fin (sqrt 2)"
    using t c n by simp
  moreover have "(4::nat) < length (library_mask example_model) \<and> \<not> library_mask example_model ! 4
      \<and> 4 < length (library_spectra example_model)
      \<and> length [Fin 100, Fin 0] = length (library_spectra example_model ! 4)"
    by (simp add: example_model_def)
  then have "reference_spectrum (build_training_info
        (example_model\<lparr>library_spectra := (library_spectra example_model)[4 := [Fin 100, Fin 0]]\<rparr>))
      = reference_spectrum (build_training_info example_model)"
    using t by blast
  ultimately show ?thesis
    using t c by (simp add: example_model_def)
qed


subsection \<open>train\<close>

text \<open>
  C6. Whenever the number of design-matrix columns (the bias and one per feature term)
  exceeds the number of currently-masked training rows, \<open>train\<close> raises RankDeficientError
  and returns no coefficients.
\<close>

theorem train_rank_check:
  assumes "n_train self < length (features self) + 1"
  shows "train solve self = Inl RankDeficientError \<and> (\<forall>r. train solve self \<noteq> Inr r)"
  using assms by (simp add: train_def)

theorem train_rank_check_witness:
  "n_train (example_model\<lparr>library_mask := [True, True, False, False, False, False]\<rparr>) = 2
   \<and> length (features (example_model\<lparr>library_mask := [True, True, False, False, False, False]\<rparr>)) + 1 = 3
   \<and> train (\<lambda>m. []) (example_model\<lparr>library_mask := [True, True, False, False, False, False]\<rparr>)
       = Inl RankDeficientError"
proof -
  let ?m = "example_model\<lparr>library_mask := [True, True, False, False, False, False]\<rparr>"
  have n: "n_train ?m = 2"
    by (simp add: n_train_def training_spectra_def masked_def example_model_def)
  have k: "length (features ?m) + 1 = 3" by (simp add: example_model_def)
  have "n_train ?m < length (features ?m) + 1" unfolding n k by simp
  from train_rank_check [OF this, of "\<lambda>m. []"] show ?thesis using n k by blast
qed



subsection \<open>flatten_struct\<close>

lemma index_of_nth: "distinct xs \<Longrightarrow> k < length xs \<Longrightarrow> index_of xs (xs ! k) = Some k"
proof (induction xs arbitrary: k)
  case Nil
  then show ?case by simp
next
  case (Cons y ys)
  show ?case
  proof (cases k)
    case 0
    then show ?thesis by simp
  next
    case (Suc j)
    then have "ys ! j \<in> set ys" using Cons.prems by simp
    then have "ys ! j \<noteq> y" using Cons.prems by auto
    then show ?thesis using Suc Cons by simp
  qed
qed

lemma index_of_mem:
  "n \<in> set xs \<Longrightarrow> \<exists>k. index_of xs n = Some k \<and> k < length xs \<and> xs ! k = n"
  by (induction xs) auto

lemma collect_fields_nth:
  assumes "distinct (dtype_names s)" "list_all (\<lambda>k. k < length (dtype_names s)) ks"
  shows "collect_fields s (map (\<lambda>k. dtype_names s ! k) ks)
     = Inr (map (\<lambda>k. (dtype_names s ! k, column k (records s))) ks)"
  using assms(2)
  by (induction ks) (simp_all add: get_field_def index_of_nth [OF assms(1)])

lemma collect_fields_names:
  assumes "distinct (dtype_names s)"
  shows "collect_fields s (dtype_names s)
     = Inr (map (\<lambda>k. (dtype_names s ! k, column k (records s))) [0..<length (dtype_names s)])"
proof -
  have "collect_fields s (map (\<lambda>k. dtype_names s ! k) [0..<length (dtype_names s)])
     = Inr (map (\<lambda>k. (dtype_names s ! k, column k (records s))) [0..<length (dtype_names s)])"
    by (rule collect_fields_nth [OF assms]) (simp add: list_all_iff)
  then show ?thesis by (simp only: map_nth)
qed

lemma np_array_rows:
  "rows \<noteq> [] \<Longrightarrow> np_array rows = Array2 (length rows) (length (hd rows)) rows"
  by (cases rows) (simp_all add: np_array_def)

text \<open>
  C10 (amended). For every structured array with at least one record and at least one
  field, flattening with all field names in declaration order gives the (number of fields
  by N) array whose row k holds the values of the k-th field, flattening without labels
  gives the (N by number of fields) array of the records, and the first is the transpose
  of the second.
\<close>

theorem flatten_struct_transpose:
  assumes "wf_struct s" and "records s \<noteq> []" and "dtype_names s \<noteq> []"
  shows "flatten_struct s (Some (dtype_names s))
       = Inr (Array2 (length (dtype_names s)) (length (records s))
                (map (\<lambda>k. column k (records s)) [0..<length (dtype_names s)]))
     \<and> flatten_struct s None
       = Inr (Array2 (length (records s)) (length (dtype_names s)) (records s))
     \<and> Array2 (length (dtype_names s)) (length (records s))
                (map (\<lambda>k. column k (records s)) [0..<length (dtype_names s)])
       = transpose_nd (Array2 (length (records s)) (length (dtype_names s)) (records s))
     \<and> (\<forall>k i. k < length (dtype_names s) \<and> i < length (records s)
           \<longrightarrow> map (\<lambda>k. column k (records s)) [0..<length (dtype_names s)] ! k ! i
               = records s ! i ! k)"
proof -
  let ?F = "length (dtype_names s)" and ?N = "length (records s)"
  let ?cols = "map (\<lambda>k. column k (records s)) [0..<?F]"
  have d: "distinct (dtype_names s)" using assms(1) by (simp add: wf_struct_def)
  obtain r rs where rr: "records s = r # rs" using assms(2) by (cases "records s") auto
  have lr: "length r = ?F" using assms(1) rr by (simp add: wf_struct_def)
  have F: "0 < ?F" using assms(3) by simp
  have ms: "map snd (map (\<lambda>k. (dtype_names s ! k, column k (records s))) [0..<?F]) = ?cols"
    by (simp add: comp_def)
  have ne: "?cols \<noteq> []" using F by simp
  have "length (hd ?cols) = ?N"
    using F by (simp add: hd_map upt_conv_Cons column_def)
  then have "np_array ?cols = Array2 ?F ?N ?cols"
    using np_array_rows [OF ne] by simp
  then have 1: "flatten_struct s (Some (dtype_names s)) = Inr (Array2 ?F ?N ?cols)"
    by (simp only: flatten_struct_def collect_fields_names [OF d] ms option.case sum.case)
  have 2: "flatten_struct s None = Inr (Array2 ?N ?F (records s))"
    using rr lr by (simp add: flatten_struct_def np_array_def)
  have 3: "Array2 ?F ?N ?cols = transpose_nd (Array2 ?N ?F (records s))"
    by simp
  have 4: "\<forall>k i. k < ?F \<and> i < ?N \<longrightarrow> ?cols ! k ! i = records s ! i ! k"
    by (simp add: column_def)
  from 1 2 3 4 show ?thesis by blast
qed

theorem flatten_struct_transpose_witness:
  "wf_struct example_struct \<and> records example_struct \<noteq> [] \<and> dtype_names example_struct \<noteq> []
   \<and> flatten_struct example_struct (Some [''teff'', ''logg''])
       = Inr (Array2 2 3 [[Fin 5000, Fin 6000, Fin 7000], [Fin 4, Fin 3, Fin 2]])
   \<and> flatten_struct example_struct None
       = Inr (Array2 3 2 [[Fin 5000, Fin 4], [Fin 6000, Fin 3], [Fin 7000, Fin 2]])
   \<and> Array2 2 3 [[Fin 5000, Fin 6000, Fin 7000], [Fin 4, Fin 3, Fin 2]]
       = transpose_nd (Array2 3 2 [[Fin 5000, Fin 4], [Fin 6000, Fin 3], [Fin 7000, Fin 2]])"
proof -
  have w: "wf_struct example_struct" by (simp add: wf_struct_def example_struct_def)
  have r: "records example_struct \<noteq> []" and n: "dtype_names example_struct \<noteq> []"
    by (simp_all add: example_struct_def)
  have e: "[0..<2] = [0, 1 :: nat]" by (simp add: upt_conv_Cons)
  from flatten_struct_transpose [OF w r n] show ?thesis
    using w r n by (simp add: example_struct_def column_def e)
qed

text \<open>
  C10 as stated fails on an array without records: with labels the result has shape
  (1, 0), without labels it is the one-dimensional empty array, whose transpose is itself.
\<close>

theorem flatten_struct_transpose_counterexample:
  "wf_struct empty_struct
   \<and> flatten_struct empty_struct (Some (dtype_names empty_struct)) = Inr (Array2 1 0 [[]])
   \<and> flatten_struct empty_struct None = Inr (Array1 [])
   \<and> Array2 1 0 [[]] \<noteq> transpose_nd (Array1 [])"
  by (simp add: wf_struct_def empty_struct_def flatten_struct_def get_field_def np_array_def
      column_def)


subsection \<open>make_struct and dict_struct\<close>

lemma column_update:
  assumes "list_all (\<lambda>r. k0 < length r) recs"
  shows "column k (map (\<lambda>r. r[k0 := x]) recs)
     = (if k = k0 then replicate (length recs) x else column k recs)"
  using assms by (induction recs) (simp_all add: column_def)

lemma assign_all_scalars:
  assumes "wf_struct s" and "set (map fst d) \<subseteq> set (dtype_names s)" and "distinct (map fst d)"
  shows "\<exists>s1. assign_all s (scalars d) = Inr s1 \<and> dtype_names s1 = dtype_names s
     \<and> length (records s1) = length (records s)
     \<and> (\<forall>k < length (dtype_names s). column k (records s1)
           = (case map_of d (dtype_names s ! k) of
                Some x \<Rightarrow> replicate (length (records s)) x
              | None \<Rightarrow> column k (records s)))"
  using assms
proof (induction d arbitrary: s)
  case Nil
  then show ?case by (simp add: scalars_def)
next
  case (Cons p d)
  obtain n x where p: "p = (n, x)" by (cases p)
  let ?names = "dtype_names s"
  have dn: "distinct ?names" and lens: "list_all (\<lambda>r. length r = length ?names) (records s)"
    using Cons.prems(1) by (simp_all add: wf_struct_def)
  have "n \<in> set ?names" using Cons.prems(2) p by simp
  from index_of_mem [OF this]
  obtain k0 where k0: "index_of ?names n = Some k0" "k0 < length ?names" "?names ! k0 = n"
    by blast
  let ?s1 = "s\<lparr>records := map (\<lambda>r. r[k0 := x]) (records s)\<rparr>"
  have sf: "set_field s n (Scalar x) = Inr ?s1"
    by (simp add: set_field_def k0(1))
  have wf1: "wf_struct ?s1"
    using dn lens by (simp add: wf_struct_def list_all_iff)
  have sub1: "set (map fst d) \<subseteq> set (dtype_names ?s1)" and d1: "distinct (map fst d)"
    using Cons.prems(2,3) by simp_all
  have "\<exists>s2. assign_all ?s1 (scalars d) = Inr s2 \<and> dtype_names s2 = ?names
     \<and> length (records s2) = length (records s)
     \<and> (\<forall>k < length ?names. column k (records s2)
           = (case map_of d (?names ! k) of
                Some y \<Rightarrow> replicate (length (records s)) y
              | None \<Rightarrow> column k (map (\<lambda>r. r[k0 := x]) (records s))))"
    using Cons.IH [OF wf1 sub1 d1] by (simp cong: option.case_cong)
  then obtain s2 where
    a: "assign_all ?s1 (scalars d) = Inr s2" and nm: "dtype_names s2 = ?names"
    and ln: "length (records s2) = length (records s)"
    and cols: "\<And>k. k < length ?names \<Longrightarrow> column k (records s2)
           = (case map_of d (?names ! k) of
                Some y \<Rightarrow> replicate (length (records s)) y
              | None \<Rightarrow> column k (map (\<lambda>r. r[k0 := x]) (records s)))"
    by blast
  have r: "assign_all s (scalars (p # d)) = Inr s2"
    using a sf by (simp add: scalars_def p)
  have c: "column k (records s2)
           = (case map_of (p # d) (?names ! k) of
                Some y \<Rightarrow> replicate (length (records s)) y
              | None \<Rightarrow> column k (records s))" if k: "k < length ?names" for k
  proof (cases "k = k0")
    case True
    have "n \<notin> set (map fst d)" using Cons.prems(3) p by simp
    then have "map_of d n = None" by (simp add: map_of_eq_None_iff)
    moreover have "list_all (\<lambda>r. k0 < length r) (records s)"
      using lens k0(2) by (simp add: list_all_iff)
    ultimately show ?thesis
      using cols [OF k] True k0(3) p by (simp add: column_update cong: option.case_cong)
  next
    case False
    then have ne: "?names ! k \<noteq> n"
      using dn k k0(2,3) by (auto simp: nth_eq_iff_index_eq)
    have "list_all (\<lambda>r. k0 < length r) (records s)"
      using lens k0(2) by (simp add: list_all_iff)
    then show ?thesis
      using cols [OF k] False ne p by (simp add: column_update cong: option.case_cong)
  qed
  show ?case
  proof (intro exI [of _ s2] conjI allI impI)
    show "assign_all s (scalars (p # d)) = Inr s2" by (rule r)
    show "dtype_names s2 = dtype_names s" by (rule nm)
    show "length (records s2) = length (records s)" by (rule ln)
    show "column k (records s2)
           = (case map_of (p # d) (?names ! k) of
                Some y \<Rightarrow> replicate (length (records s)) y
              | None \<Rightarrow> column k (records s))" if "k < length ?names" for k
      using that by (rule c)
  qed
qed


lemma make_struct_scalars:
  assumes "d \<noteq> []" and "[] \<notin> set (map fst d)"
  shows "make_struct (scalars d)
     = assign_all \<lparr>dtype_names = map fst d,
                    records = [replicate (length d) (Fin 0)]\<rparr> (scalars d)"
proof -
  obtain n x rest where d: "d = (n, x) # rest"
    using assms(1) by (cases d) auto
  have k: "map fst (scalars d) = map fst d"
    by (simp add: scalars_def comp_def case_prod_beta)
  have "(case scalars d of [] \<Rightarrow> 1
         | (n, v) # rest \<Rightarrow> (case v of Scalar x \<Rightarrow> 1 | Sequence xs \<Rightarrow> length xs)) = (1::nat)"
    by (simp add: scalars_def d)
  then show ?thesis
    using assms(2) unfolding make_struct_def k Let_def by simp
qed

text \<open>
  C9. For every non-empty dictionary d of label names (keyword names: distinct, none of
  them the empty string) with scalar float values, \<open>make_struct\<close> returns a structured array
  of which \<open>dict_struct\<close> gives a mapping with exactly the keys of d, each key mapped to the
  one-element array that holds its value in d.
\<close>

theorem dict_struct_make_struct:
  assumes "d \<noteq> []" and "distinct (map fst d)" and "[] \<notin> set (map fst d)"
  shows "\<exists>s m. make_struct (scalars d) = Inr s \<and> dict_struct s = Inr m
     \<and> dom m = set (map fst d)
     \<and> (\<forall>n x. (n, x) \<in> set d \<longrightarrow> m n = Some [x])"
proof -
  let ?keys = "map fst d"
  let ?s0 = "\<lparr>dtype_names = ?keys, records = [replicate (length d) (Fin 0)]\<rparr>"
  have wf0: "wf_struct ?s0" using assms(2) by (simp add: wf_struct_def)
  have "\<exists>s1. assign_all ?s0 (scalars d) = Inr s1 \<and> dtype_names s1 = ?keys
     \<and> length (records s1) = 1
     \<and> (\<forall>k < length ?keys. column k (records s1)
           = (case map_of d (?keys ! k) of
                Some x \<Rightarrow> replicate 1 x
              | None \<Rightarrow> column k [replicate (length d) (Fin 0)]))"
    using assign_all_scalars [OF wf0 _ assms(2)] by (simp cong: option.case_cong)
  then obtain s1 where a: "assign_all ?s0 (scalars d) = Inr s1" and nm: "dtype_names s1 = ?keys"
    and cols: "\<And>k. k < length ?keys \<Longrightarrow> column k (records s1)
           = (case map_of d (?keys ! k) of
                Some x \<Rightarrow> replicate 1 x
              | None \<Rightarrow> column k [replicate (length d) (Fin 0)])"
    by blast
  have mk: "make_struct (scalars d) = Inr s1"
    using make_struct_scalars [OF assms(1,3)] a by simp
  let ?items = "map (\<lambda>k. (dtype_names s1 ! k, column k (records s1))) [0..<length (dtype_names s1)]"
  have d1: "distinct (dtype_names s1)" using nm assms(2) by simp
  have "map fst ?items = map (\<lambda>k. dtype_names s1 ! k) [0..<length (dtype_names s1)]"
    by (simp add: comp_def)
  then have fst_items: "map fst ?items = ?keys"
    by (simp only: map_nth nm)
  have di: "distinct (map fst ?items)"
    by (simp only: fst_items assms(2))
  then have dr: "distinct (map fst (rev ?items))"
    by (simp only: rev_map [symmetric] distinct_rev)
  have "(map_of (rev ?items) = map_of ?items) = (set (rev ?items) = set ?items)"
    by (rule map_of_inject_set [OF dr di])
  then have mo: "map_of (rev ?items) = map_of ?items"
    by (simp only: set_rev)
  have ds: "dict_struct s1 = Inr (map_of ?items)"
    by (simp only: dict_struct_def collect_fields_names [OF d1] sum.case mo)
  have dm: "dom (map_of ?items) = set ?keys"
    by (simp only: dom_map_of_conv_image_fst set_map [symmetric] fst_items)
  have val: "map_of ?items n = Some [x]" if nx: "(n, x) \<in> set d" for n x
  proof -
    have "n \<in> set ?keys" using nx by force
    then obtain k where k: "k < length ?keys" "?keys ! k = n"
      by (auto simp: in_set_conv_nth)
    have "map_of d n = Some x" using nx assms(2) by simp
    then have "column k (records s1) = [x]"
      using cols [OF k(1)] k(2) by simp
    then have c: "column k (records s1) = [x]" .
    have kl: "k < length ?items" using k(1) nm by simp
    have "?items ! k = (n, column k (records s1))"
      using k nm by simp
    then have "(n, column k (records s1)) \<in> set ?items"
      using nth_mem [OF kl] by simp
    then have "map_of ?items n = Some (column k (records s1))"
      by (rule map_of_is_SomeI [OF di])
    then show ?thesis by (simp only: c)
  qed
  show ?thesis
  proof (intro exI [of _ s1] exI [of _ "map_of ?items"] conjI allI impI)
    show "make_struct (scalars d) = Inr s1" by (rule mk)
    show "dict_struct s1 = Inr (map_of ?items)" by (rule ds)
    show "dom (map_of ?items) = set ?keys" by (rule dm)
    show "map_of ?items n = Some [x]" if "(n, x) \<in> set d" for n x
      using that by (rule val)
  qed
qed


lemma example_make_struct: "make_struct (scalars example_dict) = Inr example_labels"
  by (simp add: make_struct_def scalars_def example_dict_def example_labels_def set_field_def)

theorem dict_struct_make_struct_witness:
  "example_dict \<noteq> [] \<and> distinct (map fst example_dict) \<and> [] \<notin> set (map fst example_dict)
   \<and> make_struct (scalars example_dict) = Inr example_labels
   \<and> (\<exists>m. dict_struct example_labels = Inr m \<and> dom m = {''teff'', ''logg''}
          \<and> m ''teff'' = Some [Fin 5000] \<and> m ''logg'' = Some [Fin 4])"
proof -
  have h: "example_dict \<noteq> []" "distinct (map fst example_dict)"
    "[] \<notin> set (map fst example_dict)"
    by (simp_all add: example_dict_def)
  from dict_struct_make_struct [OF h] obtain s m where
    s: "make_struct (scalars example_dict) = Inr s" and m: "dict_struct s = Inr m"
    and dm: "dom m = set (map fst example_dict)"
    and v: "\<forall>n x. (n, x) \<in> set example_dict \<longrightarrow> m n = Some [x]"
    by blast
  have e: "s = example_labels" using s by (simp add: example_make_struct)
  have "(''teff'', Fin 5000) \<in> set example_dict" "(''logg'', Fin 4) \<in> set example_dict"
    by (simp_all add: example_dict_def)
  then have "m ''teff'' = Some [Fin 5000]" "m ''logg'' = Some [Fin 4]"
    using v by blast+
  moreover have "dom m = {''teff'', ''logg''}"
    using dm by (simp add: example_dict_def)
  ultimately have "\<exists>m. dict_struct example_labels = Inr m \<and> dom m = {''teff'', ''logg''}
          \<and> m ''teff'' = Some [Fin 5000] \<and> m ''logg'' = Some [Fin 4]"
    using m unfolding e by blast
  then show ?thesis using h example_make_struct by blast
qed


subsection \<open>within\<close>

lemma flt_irrefl: "\<not> flt a a"
  by (cases a) simp_all

text \<open>
  C8. For every bound pair (lo, hi) and every value v, within((lo, hi), v) is true exactly
  when lo < v and v < hi; a value equal to either endpoint is outside the bound. On finite
  numbers the comparison is the order of the reals.
\<close>

theorem within_open_interval:
  "within_bound (lo, hi) v = (flt lo v \<and> flt v hi)
   \<and> \<not> within_bound (lo, hi) lo \<and> \<not> within_bound (lo, hi) hi
   \<and> within_bound (Fin a, Fin b) (Fin x) = (a < x \<and> x < b)"
  by (auto simp: within_bound_def fgt_def flt_irrefl)

end
